theory Spec2Isabelle
  imports Complex_Main "HOL-Library.Product_Lexorder" "HOL-Library.Sublist"
begin

chapter \<open>The model\<close>

section \<open>The memory store of \<^verbatim>\<open>rag.py\<close>\<close>

text \<open>
  \<^verbatim>\<open>UtilityRAG\<close> keeps three parallel Python lists: the texts, their embeddings and
  their dates. Python mutates the object in place; here every method takes the store and
  returns the store it leaves behind, together with what the call returned or raised.
  An exception does not undo the assignments made before it, so a raising call still
  returns a store.
\<close>

datatype error =
    EmbeddingError      \<comment> \<open>\<^verbatim>\<open>Embedding.embed\<close> raised after its retries\<close>
  | ValueError          \<comment> \<open>NumPy: operands of \<^verbatim>\<open>np.dot\<close> do not fit\<close>
  | IndexError          \<comment> \<open>list index out of range\<close>
  | FileNotFoundError   \<comment> \<open>\<^verbatim>\<open>open\<close> of a path that has no file\<close>
  | UnpicklingError     \<comment> \<open>\<^verbatim>\<open>pickle.load\<close> of bytes that are no pickle\<close>
  | KeyError            \<comment> \<open>the unpickled dictionary lacks a key\<close>
  | TypeError           \<comment> \<open>the unpickled object is no dictionary\<close>
  | UnicodeDecodeError  \<comment> \<open>the bytes of a file are no text\<close>

datatype 'a outcome = Returned 'a | Raised error

type_synonym vec = "real list"

text \<open>
  \<^verbatim>\<open>Embedding.embed\<close> is an external service, held in the attribute
  \<^verbatim>\<open>embedding_model\<close> that the constructor assigns and nothing reassigns. It is a
  parameter of every operation that calls it: a function from the text to the vector,
  \<open>None\<close> when the call raises.
\<close>

type_synonym embedding_model = "string \<Rightarrow> vec option"

record UtilityRAG =
  memories :: "string list"
  memory_embeddings :: "vec list"
  memory_dates :: "int list"

definition UtilityRAG_init :: UtilityRAG where
  "UtilityRAG_init = \<lparr>memories = [], memory_embeddings = [], memory_dates = []\<rparr>"

text \<open>
  \<^verbatim>\<open>add_memories\<close>: the loop over \<^verbatim>\<open>zip(texts, dates)\<close>. The embedding is computed
  before the three appends, so a failing embedder leaves the pairs before it stored and
  nothing of the failing pair.
\<close>

fun add_memories_loop ::
  "embedding_model \<Rightarrow> (string \<times> int) list \<Rightarrow> UtilityRAG \<Rightarrow> unit outcome \<times> UtilityRAG" where
  "add_memories_loop em [] s = (Returned (), s)"
| "add_memories_loop em ((text, date) # rest) s =
     (case em text of
        None \<Rightarrow> (Raised EmbeddingError, s)
      | Some embedding \<Rightarrow>
          add_memories_loop em rest
            (s\<lparr>memories := memories s @ [text],
               memory_embeddings := memory_embeddings s @ [embedding],
               memory_dates := memory_dates s @ [date]\<rparr>))"

definition add_memories ::
  "embedding_model \<Rightarrow> UtilityRAG \<Rightarrow> string list \<Rightarrow> int list \<Rightarrow> unit outcome \<times> UtilityRAG" where
  "add_memories em s texts dates = add_memories_loop em (zip texts dates) s"

text \<open>
  The specification's \<open>add\<close> of one record is \<^verbatim>\<open>add_memories([text], [date])\<close>; calling
  it for each pair in order stops at the first call that raises.
\<close>

fun add_each ::
  "embedding_model \<Rightarrow> UtilityRAG \<Rightarrow> (string \<times> int) list \<Rightarrow> unit outcome \<times> UtilityRAG" where
  "add_each em s [] = (Returned (), s)"
| "add_each em s ((text, date) # rest) =
     (case add_memories em s [text] [date] of
        (Raised e, s') \<Rightarrow> (Raised e, s')
      | (Returned u, s') \<Rightarrow> add_each em s' rest)"

text \<open>The three lists are parallel: entry \<open>i\<close> of each belongs to record \<open>i\<close>.\<close>

definition store_inv :: "UtilityRAG \<Rightarrow> bool" where
  "store_inv s \<longleftrightarrow>
     length (memory_embeddings s) = length (memories s) \<and>
     length (memory_dates s) = length (memories s)"

section \<open>Retrieval\<close>

subsection \<open>NumPy arithmetic\<close>

text \<open>
  The vectors are arrays of IEEE doubles. Finite values are modelled by the reals they
  denote (rounding is not modelled); the special values that NumPy's division produces
  when the divisor is zero are written out: it warns and yields \<^verbatim>\<open>nan\<close> for \<open>0/0\<close>
  and an infinity otherwise, and does not raise.
\<close>

datatype npfloat = NegInf | Finite real | PosInf | NaN

fun np_divide :: "real \<Rightarrow> real \<Rightarrow> npfloat" where
  "np_divide x y =
     (if y \<noteq> 0 then Finite (x / y)
      else if x = 0 then NaN
      else if 0 < x then PosInf
      else NegInf)"

text \<open>
  NumPy sorts \<^verbatim>\<open>nan\<close> after every other value. \<open>np_sort_key\<close> maps a value to its
  place in that order (pairs are compared lexicographically); it is injective, so two
  values have the same key exactly when they are the same.
\<close>

fun np_sort_key :: "npfloat \<Rightarrow> nat \<times> real" where
  "np_sort_key NegInf = (0, 0)"
| "np_sort_key (Finite r) = (1, r)"
| "np_sort_key PosInf = (2, 0)"
| "np_sort_key NaN = (3, 0)"

definition np_dot :: "vec list \<Rightarrow> vec \<Rightarrow> real list" where
  "np_dot E q = map (\<lambda>e. sum_list (map2 (*) e q)) E"

definition np_linalg_norm :: "vec \<Rightarrow> real" where
  "np_linalg_norm v = sqrt (sum_list (map (\<lambda>x. x * x) v))"

text \<open>
  \<^verbatim>\<open>np.dot(self.memory_embeddings, query_embedding)\<close> needs a non-empty list of rows that
  all have the length of the query vector; otherwise NumPy raises.
\<close>

definition np_shapes_fit :: "vec list \<Rightarrow> vec \<Rightarrow> bool" where
  "np_shapes_fit E q \<longleftrightarrow> E \<noteq> [] \<and> (\<forall>e\<in>set E. length e = length q)"

definition cosine_similarities :: "vec list \<Rightarrow> vec \<Rightarrow> npfloat list" where
  "cosine_similarities E q =
     map2 np_divide (np_dot E q) (map (\<lambda>r. r * np_linalg_norm q) (map np_linalg_norm E))"

text \<open>
  \<^verbatim>\<open>np.argsort\<close> is library code. Its contract is \<open>argsort_spec\<close>: the result lists every
  index once, in ascending order of the values. The default sorting kind does not promise
  an order among equal values, so the function is a parameter of retrieval.
  \<open>argsort_stable\<close> is the instance that keeps equal values in index order, which is
  what the insertion sort used by NumPy's generic code on short arrays produces.
\<close>

type_synonym argsort_fn = "npfloat list \<Rightarrow> nat list"

definition argsort_spec :: "argsort_fn \<Rightarrow> bool" where
  "argsort_spec argsort \<longleftrightarrow>
     (\<forall>v. distinct (argsort v) \<and> set (argsort v) = {..<length v} \<and>
          sorted (map (\<lambda>i. np_sort_key (v ! i)) (argsort v)))"

definition argsort_stable :: argsort_fn where
  "argsort_stable v = sort_key (\<lambda>i. np_sort_key (v ! i)) [0..<length v]"

subsection \<open>Python slices and \<^verbatim>\<open>sorted\<close>\<close>

text \<open>
  \<^verbatim>\<open>xs[i:]\<close> and \<^verbatim>\<open>xs[:i]\<close> for a Python integer \<open>i\<close>: a negative bound counts from
  the end, and bounds beyond the list are clipped.
\<close>

definition py_slice_from :: "int \<Rightarrow> 'a list \<Rightarrow> 'a list" where
  "py_slice_from i xs =
     (if i < 0 then drop (nat (int (length xs) + i)) xs else drop (nat i) xs)"

definition py_slice_to :: "int \<Rightarrow> 'a list \<Rightarrow> 'a list" where
  "py_slice_to i xs =
     (if i < 0 then take (nat (int (length xs) + i)) xs else take (nat i) xs)"

text \<open>
  \<^verbatim>\<open>sorted(xs, key=f, reverse=True)\<close>: CPython reverses the list, sorts it with its
  stable ascending sort and reverses the result, so equal keys keep their order.
\<close>

definition py_sorted_reverse :: "('a \<Rightarrow> 'k::linorder) \<Rightarrow> 'a list \<Rightarrow> 'a list" where
  "py_sorted_reverse f xs = rev (sort_key f (rev xs))"

subsection \<open>\<^verbatim>\<open>UtilityRAG.retrieve_memories\<close>\<close>

text \<open>The dictionaries of the result: \<^verbatim>\<open>{"text": ...}\<close>, or date, text and embedding.\<close>

datatype memory_item =
    TextOnly (item_text: string)
  | FullItem (item_date: int) (item_text: string) (item_embedding: vec)

text \<open>\<^verbatim>\<open>np.argsort(similarities)[-k:][::-1]\<close>\<close>

definition top_k_indices :: "argsort_fn \<Rightarrow> npfloat list \<Rightarrow> int \<Rightarrow> nat list" where
  "top_k_indices argsort similarities k = rev (py_slice_from (- k) (argsort similarities))"

text \<open>\<^verbatim>\<open>sorted(top_k_indices, key=lambda i: self.memory_dates[i], reverse=True)[:n]\<close>\<close>

definition top_n_indices :: "int list \<Rightarrow> nat list \<Rightarrow> int \<Rightarrow> nat list" where
  "top_n_indices dates top_k n = py_slice_to n (py_sorted_reverse (\<lambda>i. dates ! i) top_k)"

definition result_item :: "UtilityRAG \<Rightarrow> bool \<Rightarrow> nat \<Rightarrow> memory_item" where
  "result_item s just_text idx =
     (if just_text then TextOnly (memories s ! idx)
      else FullItem (memory_dates s ! idx) (memories s ! idx) (memory_embeddings s ! idx))"

text \<open>
  The method assigns to no attribute; the store is returned as it was given. Reading a
  list beyond its end raises \<^verbatim>\<open>IndexError\<close>: the key function of \<^verbatim>\<open>sorted\<close> reads the
  date of every candidate, the result loop reads the text (and the embedding) of every
  chosen index.
\<close>

definition retrieve_memories ::
  "argsort_fn \<Rightarrow> embedding_model \<Rightarrow> UtilityRAG \<Rightarrow> string \<Rightarrow> int \<Rightarrow> int \<Rightarrow> bool \<Rightarrow>
     memory_item list outcome \<times> UtilityRAG" where
  "retrieve_memories argsort em s query_text n k just_text =
     (if memories s = [] then (Returned [], s)
      else case em query_text of
        None \<Rightarrow> (Raised EmbeddingError, s)
      | Some query_embedding \<Rightarrow>
          if \<not> np_shapes_fit (memory_embeddings s) query_embedding then (Raised ValueError, s)
          else
            let similarities = cosine_similarities (memory_embeddings s) query_embedding;
                top_k = top_k_indices argsort similarities k
            in if \<exists>i\<in>set top_k. length (memory_dates s) \<le> i then (Raised IndexError, s)
               else
                 let top_n = top_n_indices (memory_dates s) top_k n
                 in if \<exists>idx\<in>set top_n. length (memories s) \<le> idx \<or>
                          (\<not> just_text \<and> length (memory_embeddings s) \<le> idx)
                    then (Raised IndexError, s)
                    else (Returned (map (result_item s just_text) top_n), s))"

text \<open>The store of the specification's concrete scenario (section 8).\<close>

definition scenario_store :: UtilityRAG where
  "scenario_store =
     \<lparr>memories = [''likes hiking'', ''got a new job'', ''moved to New Paltz'',
                  ''enjoys biographies''],
      memory_embeddings = [[0, 1], [1, 0], [1, 0], [0, 1]],
      memory_dates = [0, 3, 3, 0]\<rparr>"

text \<open>An embedder for the examples: it knows seven texts and raises on any other.\<close>

definition stub_embed :: embedding_model where
  "stub_embed text =
     (if text = ''likes hiking'' then Some [0, 1]
      else if text = ''got a new job'' then Some [1, 0]
      else if text = ''moved to New Paltz'' then Some [1, 0]
      else if text = ''enjoys biographies'' then Some [0, 1]
      else if text = ''career update'' then Some [1, 0]
      else if text = ''a'' then Some [0, 0]
      else if text = ''b'' then Some [1, 0]
      else None)"

text \<open>A store whose first record has the zero vector as its embedding.\<close>

definition zero_vector_store :: UtilityRAG where
  "zero_vector_store =
     \<lparr>memories = [''a'', ''b''], memory_embeddings = [[0, 0], [1, 0]], memory_dates = [0, 0]\<rparr>"

section \<open>Persistence\<close>

subsection \<open>Files and pickles\<close>

text \<open>
  The persistence medium maps a path to the bytes of the file there; a path without a
  file maps to \<open>None\<close>. Directories are not files of their own, so \<^verbatim>\<open>os.makedirs\<close> with
  \<^verbatim>\<open>exist_ok=True\<close> changes nothing, and writing a file succeeds.

  \<^verbatim>\<open>pickle\<close> is library code: \<open>dumps\<close> maps an object to its bytes and \<open>loads\<close> maps
  bytes back, \<open>None\<close> when they are no pickle. Both are parameters; the type \<open>'b\<close> of
  bytes is left open. \<open>pickle_roundtrip\<close> is the library's contract that loading what was
  dumped gives the object back.
\<close>

datatype pickled =
    PickledDict (dict_memories: "string list option")
                (dict_memory_embeddings: "vec list option")
                (dict_memory_dates: "int list option")
      \<comment> \<open>a dictionary; \<open>None\<close> where it lacks the key\<close>
  | OtherObject
      \<comment> \<open>an object that cannot be subscripted with a string\<close>

type_synonym 'b filesystem = "string \<Rightarrow> 'b option"

definition pickle_roundtrip :: "(pickled \<Rightarrow> 'b) \<Rightarrow> ('b \<Rightarrow> pickled option) \<Rightarrow> bool" where
  "pickle_roundtrip dumps loads \<longleftrightarrow> (\<forall>v. loads (dumps v) = Some v)"

text \<open>\<^verbatim>\<open>os.path.join\<close> (POSIX), for two and for more components.\<close>

definition os_path_join :: "string \<Rightarrow> string \<Rightarrow> string" where
  "os_path_join a b =
     (if b \<noteq> [] \<and> hd b = CHR ''/'' then b
      else if a = [] \<or> last a = CHR ''/'' then a @ b
      else a @ ''/'' @ b)"


subsection \<open>\<^verbatim>\<open>UtilityRAG.save_to_file\<close> and \<^verbatim>\<open>UtilityRAG.load_from_file\<close>\<close>

text \<open>The dictionary that \<^verbatim>\<open>save_to_file\<close> dumps.\<close>

definition saved_dict :: "UtilityRAG \<Rightarrow> pickled" where
  "saved_dict s =
     PickledDict (Some (memories s)) (Some (memory_embeddings s)) (Some (memory_dates s))"

definition UtilityRAG_save_to_file ::
  "(pickled \<Rightarrow> 'b) \<Rightarrow> UtilityRAG \<Rightarrow> string \<Rightarrow> 'b filesystem \<Rightarrow> 'b filesystem" where
  "UtilityRAG_save_to_file dumps s filename fs = fs(filename \<mapsto> dumps (saved_dict s))"

text \<open>
  \<^verbatim>\<open>load_from_file\<close> assigns the three attributes one after the other, so a dictionary
  that lacks a key leaves the attributes before it assigned. It takes no embedder.
\<close>

definition UtilityRAG_load_from_file ::
  "('b \<Rightarrow> pickled option) \<Rightarrow> UtilityRAG \<Rightarrow> string \<Rightarrow> 'b filesystem \<Rightarrow>
     unit outcome \<times> UtilityRAG" where
  "UtilityRAG_load_from_file loads s filename fs =
     (case fs filename of
        None \<Rightarrow> (Raised FileNotFoundError, s)
      | Some bytes \<Rightarrow>
          (case loads bytes of
             None \<Rightarrow> (Raised UnpicklingError, s)
           | Some OtherObject \<Rightarrow> (Raised TypeError, s)
           | Some (PickledDict m e d) \<Rightarrow>
               (case m of
                  None \<Rightarrow> (Raised KeyError, s)
                | Some m' \<Rightarrow>
                    (case e of
                       None \<Rightarrow> (Raised KeyError, s\<lparr>memories := m'\<rparr>)
                     | Some e' \<Rightarrow>
                         (case d of
                            None \<Rightarrow>
                              (Raised KeyError, s\<lparr>memories := m', memory_embeddings := e'\<rparr>)
                          | Some d' \<Rightarrow>
                              (Returned (),
                               s\<lparr>memories := m', memory_embeddings := e',
                                 memory_dates := d'\<rparr>))))))"

section \<open>The layered memory\<close>

record LMRRAG =
  facts :: UtilityRAG
  reflections :: UtilityRAG
  deep_reflections :: UtilityRAG
  output_dir :: string

definition LMRRAG_init :: "string \<Rightarrow> LMRRAG" where
  "LMRRAG_init dir =
     \<lparr>facts = UtilityRAG_init, reflections = UtilityRAG_init,
      deep_reflections = UtilityRAG_init, output_dir = dir\<rparr>"

definition add_facts ::
  "embedding_model \<Rightarrow> LMRRAG \<Rightarrow> string list \<Rightarrow> int list \<Rightarrow> unit outcome \<times> LMRRAG" where
  "add_facts em m texts dates =
     (case add_memories em (facts m) texts dates of (r, s) \<Rightarrow> (r, m\<lparr>facts := s\<rparr>))"

definition add_reflections ::
  "embedding_model \<Rightarrow> LMRRAG \<Rightarrow> string list \<Rightarrow> int list \<Rightarrow> unit outcome \<times> LMRRAG" where
  "add_reflections em m texts dates =
     (case add_memories em (reflections m) texts dates of (r, s) \<Rightarrow> (r, m\<lparr>reflections := s\<rparr>))"

definition add_deep_reflections ::
  "embedding_model \<Rightarrow> LMRRAG \<Rightarrow> string list \<Rightarrow> int list \<Rightarrow> unit outcome \<times> LMRRAG" where
  "add_deep_reflections em m texts dates =
     (case add_memories em (deep_reflections m) texts dates of
        (r, s) \<Rightarrow> (r, m\<lparr>deep_reflections := s\<rparr>))"

text \<open>
  The three \<^verbatim>\<open>get_\<close> methods pass the query, \<open>n\<close> and \<open>k\<close> on and leave \<^verbatim>\<open>just_text\<close>
  at its default.
\<close>

definition get_facts ::
  "argsort_fn \<Rightarrow> embedding_model \<Rightarrow> LMRRAG \<Rightarrow> string \<Rightarrow> int \<Rightarrow> int \<Rightarrow> memory_item list outcome" where
  "get_facts argsort em m query_text n k =
     fst (retrieve_memories argsort em (facts m) query_text n k True)"

definition get_reflections ::
  "argsort_fn \<Rightarrow> embedding_model \<Rightarrow> LMRRAG \<Rightarrow> string \<Rightarrow> int \<Rightarrow> int \<Rightarrow> memory_item list outcome" where
  "get_reflections argsort em m query_text n k =
     fst (retrieve_memories argsort em (reflections m) query_text n k True)"

definition get_deep_reflections ::
  "argsort_fn \<Rightarrow> embedding_model \<Rightarrow> LMRRAG \<Rightarrow> string \<Rightarrow> int \<Rightarrow> int \<Rightarrow> memory_item list outcome" where
  "get_deep_reflections argsort em m query_text n k =
     fst (retrieve_memories argsort em (deep_reflections m) query_text n k True)"

text \<open>\<^verbatim>\<open>output_dir if output_dir is not None else self.output_dir\<close>\<close>

definition chosen_dir :: "string option \<Rightarrow> LMRRAG \<Rightarrow> string" where
  "chosen_dir dir m = (case dir of None \<Rightarrow> output_dir m | Some d \<Rightarrow> d)"


text \<open>
  \<^verbatim>\<open>LMRRAG.load_from_file\<close>: the three loads run in order inside one \<^verbatim>\<open>try\<close>; the
  first exception ends the block and the method returns \<^verbatim>\<open>False\<close>. What was assigned
  before the exception stays assigned.
\<close>

definition LMRRAG_load_from_file ::
  "('b \<Rightarrow> pickled option) \<Rightarrow> LMRRAG \<Rightarrow> string option \<Rightarrow> 'b filesystem \<Rightarrow> bool \<times> LMRRAG" where
  "LMRRAG_load_from_file loads m dir fs =
     (let load_dir = chosen_dir dir m in
      case UtilityRAG_load_from_file loads (facts m) (os_path_join load_dir ''facts.pkl'') fs of
        (Raised e, f) \<Rightarrow> (False, m\<lparr>facts := f\<rparr>)
      | (Returned u, f) \<Rightarrow>
          (case UtilityRAG_load_from_file loads (reflections m)
                  (os_path_join load_dir ''reflections.pkl'') fs of
             (Raised e, r) \<Rightarrow> (False, m\<lparr>facts := f, reflections := r\<rparr>)
           | (Returned u, r) \<Rightarrow>
               (case UtilityRAG_load_from_file loads (deep_reflections m)
                       (os_path_join load_dir ''deep_reflections.pkl'') fs of
                  (Raised e, d) \<Rightarrow>
                    (False, m\<lparr>facts := f, reflections := r, deep_reflections := d\<rparr>)
                | (Returned u, d) \<Rightarrow>
                    (True, m\<lparr>facts := f, reflections := r, deep_reflections := d\<rparr>))))"


text \<open>A blob is missing or unreadable: there is no file, or its bytes are no pickle.\<close>

definition blob_unreadable :: "('b \<Rightarrow> pickled option) \<Rightarrow> 'b filesystem \<Rightarrow> string \<Rightarrow> bool" where
  "blob_unreadable loads fs path =
     (case fs path of None \<Rightarrow> True | Some bytes \<Rightarrow> loads bytes = None)"

text \<open>
  Bytes for the examples: a pickle, the encoding of a text, or bytes that are neither.
\<close>

datatype example_bytes = PickleBytes pickled | TextBytes string | Garbage

fun example_loads :: "example_bytes \<Rightarrow> pickled option" where
  "example_loads (PickleBytes v) = Some v"
| "example_loads (TextBytes t) = None"
| "example_loads Garbage = None"


text \<open>A directory in which only the facts of the scenario have been saved.\<close>

definition facts_only_fs :: "example_bytes filesystem" where
  "facts_only_fs =
     UtilityRAG_save_to_file PickleBytes scenario_store ''d/facts.pkl'' (\<lambda>path. None)"


definition no_deep_fs :: "example_bytes filesystem" where
  "no_deep_fs =
     UtilityRAG_save_to_file PickleBytes zero_vector_store ''d/reflections.pkl'' facts_only_fs"

section \<open>The reflection pipeline of \<^verbatim>\<open>agents.py\<close>\<close>






















chapter \<open>Properties\<close>

section \<open>Adding memories\<close>

lemma add_memories_loop_inv:
  "store_inv s \<Longrightarrow> store_inv (snd (add_memories_loop em ps s))"
proof (induction ps arbitrary: s)
  case Nil
  then show ?case by simp
next
  case (Cons p ps)
  obtain t d where p: "p = (t, d)" by (cases p)
  show ?case
  proof (cases "em t")
    case None
    with Cons.prems p show ?thesis by simp
  next
    case (Some embedding)
    let ?s = "s\<lparr>memories := memories s @ [t],
                memory_embeddings := memory_embeddings s @ [embedding],
                memory_dates := memory_dates s @ [d]\<rparr>"
    from Cons.prems have "store_inv ?s" by (simp add: store_inv_def)
    then have "store_inv (snd (add_memories_loop em ps ?s))" by (rule Cons.IH)
    with Some p show ?thesis by simp
  qed
qed

lemma add_memories_loop_outcome:
  "fst (add_memories_loop em ps s) = Returned () \<or>
   fst (add_memories_loop em ps s) = Raised EmbeddingError"
proof (induction ps arbitrary: s)
  case Nil
  show ?case by simp
next
  case (Cons p ps)
  obtain t d where p: "p = (t, d)" by (cases p)
  show ?case
  proof (cases "em t")
    case None
    with p show ?thesis by simp
  next
    case (Some embedding)
    with p Cons.IH show ?thesis by simp
  qed
qed

lemma add_memories_loop_each: "add_memories_loop em ps s = add_each em s ps"
proof (induction ps arbitrary: s)
  case Nil
  show ?case by simp
next
  case (Cons p ps)
  obtain t d where p: "p = (t, d)" by (cases p)
  show ?case
  proof (cases "em t")
    case None
    with p show ?thesis by (simp add: add_memories_def)
  next
    case (Some embedding)
    with p Cons.IH show ?thesis by (simp add: add_memories_def)
  qed
qed

text \<open>
  Claim C3, as stated: \<^verbatim>\<open>add_memories(["a","b"], [1])\<close> fails. It does not: \<^verbatim>\<open>zip\<close>
  stops at the shorter list, the call returns normally and the record \<open>("a", 1)\<close> is
  stored.
\<close>

theorem C3_length_mismatch_counterexample:
  "add_memories stub_embed UtilityRAG_init [''a'', ''b''] [1] =
     (Returned (), \<lparr>memories = [''a''], memory_embeddings = [[0, 0]], memory_dates = [1]\<rparr>)"
  by (simp add: add_memories_def UtilityRAG_init_def stub_embed_def)

text \<open>
  Claim C3, amended: for texts and dates of any lengths, \<^verbatim>\<open>add_memories\<close> is the same
  as adding the pairs of \<^verbatim>\<open>zip(texts, dates)\<close> one at a time, in order; no length check
  is made, and the only error it can raise is the embedder's.
\<close>

theorem C3_add_memories_is_add_each:
  "add_memories em s texts dates = add_each em s (zip texts dates) \<and>
   fst (add_memories em s texts dates) \<in> {Returned (), Raised EmbeddingError}"
proof
  show "add_memories em s texts dates = add_each em s (zip texts dates)"
    by (simp add: add_memories_def add_memories_loop_each)
next
  have "fst (add_memories_loop em (zip texts dates) s) = Returned () \<or>
        fst (add_memories_loop em (zip texts dates) s) = Raised EmbeddingError"
    by (rule add_memories_loop_outcome)
  then show "fst (add_memories em s texts dates) \<in> {Returned (), Raised EmbeddingError}"
    by (simp add: add_memories_def)
qed

section \<open>Retrieval: candidates and recency\<close>

lemma argsort_stable_spec: "argsort_spec argsort_stable"
  by (simp add: argsort_spec_def argsort_stable_def atLeast0LessThan)

lemma insort_key_ties:
  fixes f :: "nat \<Rightarrow> 'k::linorder"
  assumes "sorted_wrt (\<lambda>i j. f i < f j \<or> (f i = f j \<and> i < j)) ys"
    and "\<forall>y\<in>set ys. x < y"
  shows "sorted_wrt (\<lambda>i j. f i < f j \<or> (f i = f j \<and> i < j)) (insort_key f x ys)"
  using assms
proof (induction ys)
  case Nil
  then show ?case by simp
next
  case (Cons y ys)
  show ?case
  proof (cases "f x \<le> f y")
    case True
    with Cons.prems show ?thesis by (auto simp: order.order_iff_strict)
  next
    case False
    with Cons show ?thesis by (auto simp: set_insort_key)
  qed
qed

lemma sort_key_ties:
  fixes f :: "nat \<Rightarrow> 'k::linorder"
  assumes "sorted_wrt (<) xs"
  shows "sorted_wrt (\<lambda>i j. f i < f j \<or> (f i = f j \<and> i < j)) (sort_key f xs)"
  using assms
proof (induction xs)
  case Nil
  then show ?case by simp
next
  case (Cons x xs)
  then show ?case by (simp add: insort_key_ties)
qed

lemma argsort_stable_ties:
  "sorted_wrt (\<lambda>i j. np_sort_key (v ! i) < np_sort_key (v ! j) \<or>
       (np_sort_key (v ! i) = np_sort_key (v ! j) \<and> i < j)) (argsort_stable v)"
  unfolding argsort_stable_def by (rule sort_key_ties) simp

lemma np_sort_key_inj: "np_sort_key a = np_sort_key b \<longleftrightarrow> a = b"
  by (cases a; cases b) simp_all

lemma py_slice_from_drop: "\<exists>m. py_slice_from i xs = drop m xs"
  by (auto simp: py_slice_from_def)

lemma py_slice_to_take: "\<exists>m. py_slice_to i xs = take m xs"
  by (auto simp: py_slice_to_def)

lemma py_slice_to_length: "0 \<le> i \<Longrightarrow> length (py_slice_to i xs) \<le> nat i"
  by (simp add: py_slice_to_def)

lemma py_slice_from_neg_length:
  "0 < k \<Longrightarrow> length (py_slice_from (- k) xs) = min (nat k) (length xs)"
  by (auto simp: py_slice_from_def)


lemma sorted_wrt_dropped_before:
  assumes "sorted_wrt P xs" and "j \<in> set xs" and "j \<notin> set (drop m xs)" and "i \<in> set (drop m xs)"
  shows "P j i"
proof -
  from assms(1) have "sorted_wrt P (take m xs @ drop m xs)" by simp
  then have *: "\<forall>x\<in>set (take m xs). \<forall>y\<in>set (drop m xs). P x y"
    unfolding sorted_wrt_append by blast
  have "set xs = set (take m xs) \<union> set (drop m xs)"
    by (metis append_take_drop_id set_append)
  with assms(2,3) have "j \<in> set (take m xs)" by blast
  with * assms(4) show ?thesis by blast
qed

lemma argsort_spec_length:
  assumes "argsort_spec argsort"
  shows "length (argsort v) = length v"
proof -
  from assms have d: "distinct (argsort v)" and s: "set (argsort v) = {..<length v}"
    by (simp_all add: argsort_spec_def)
  from d have "length (argsort v) = card (set (argsort v))" by (simp add: distinct_card)
  with s show ?thesis by simp
qed

lemma top_k_indices_drop: "\<exists>m. top_k_indices argsort sims k = rev (drop m (argsort sims))"
  unfolding top_k_indices_def using py_slice_from_drop [of "- k" "argsort sims"] by auto

lemma top_k_indices_distinct:
  assumes "argsort_spec argsort"
  shows "distinct (top_k_indices argsort sims k)"
proof -
  obtain m where m: "top_k_indices argsort sims k = rev (drop m (argsort sims))"
    using top_k_indices_drop by blast
  from assms have "distinct (argsort sims)" by (simp add: argsort_spec_def)
  with m show ?thesis by simp
qed

lemma top_k_indices_range:
  assumes "argsort_spec argsort"
  shows "set (top_k_indices argsort sims k) \<subseteq> {..<length sims}"
proof -
  obtain m where m: "top_k_indices argsort sims k = rev (drop m (argsort sims))"
    using top_k_indices_drop by blast
  from assms have "set (argsort sims) = {..<length sims}" by (simp add: argsort_spec_def)
  with m set_drop_subset [of m "argsort sims"] show ?thesis by simp
qed

lemma top_k_indices_length:
  assumes "argsort_spec argsort" and "0 < k"
  shows "length (top_k_indices argsort sims k) = min (nat k) (length sims)"
  using assms by (simp add: top_k_indices_def py_slice_from_neg_length argsort_spec_length)

lemma top_k_indices_descending:
  assumes "argsort_spec argsort"
  shows "sorted (rev (map (\<lambda>i. np_sort_key (sims ! i)) (top_k_indices argsort sims k)))"
proof -
  obtain m where m: "top_k_indices argsort sims k = rev (drop m (argsort sims))"
    using top_k_indices_drop by blast
  from assms have "sorted (map (\<lambda>i. np_sort_key (sims ! i)) (argsort sims))"
    by (simp add: argsort_spec_def)
  then have "sorted (drop m (map (\<lambda>i. np_sort_key (sims ! i)) (argsort sims)))"
    by (rule sorted_wrt_drop)
  with m show ?thesis by (simp add: rev_map drop_map)
qed

lemma top_k_indices_best:
  assumes "argsort_spec argsort"
    and "i \<in> set (top_k_indices argsort sims k)"
    and "j < length sims"
    and "j \<notin> set (top_k_indices argsort sims k)"
  shows "np_sort_key (sims ! j) \<le> np_sort_key (sims ! i)"
proof -
  obtain m where m: "top_k_indices argsort sims k = rev (drop m (argsort sims))"
    using top_k_indices_drop by blast
  from assms(1) have "sorted (map (\<lambda>i. np_sort_key (sims ! i)) (argsort sims))"
    and s: "set (argsort sims) = {..<length sims}"
    by (simp_all add: argsort_spec_def)
  then have sw: "sorted_wrt (\<lambda>x y. np_sort_key (sims ! x) \<le> np_sort_key (sims ! y)) (argsort sims)"
    by (simp add: sorted_wrt_map)
  from s assms(3) have "j \<in> set (argsort sims)" by simp
  moreover from m assms(4) have "j \<notin> set (drop m (argsort sims))" by simp
  moreover from m assms(2) have "i \<in> set (drop m (argsort sims))" by simp
  ultimately show ?thesis using sorted_wrt_dropped_before [OF sw] by blast
qed

lemma top_k_indices_stable_ties:
  "sorted_wrt (\<lambda>i j. sims ! i = sims ! j \<longrightarrow> j < i) (top_k_indices argsort_stable sims k)"
proof -
  obtain m where m: "top_k_indices argsort_stable sims k = rev (drop m (argsort_stable sims))"
    using top_k_indices_drop by blast
  have "sorted_wrt (\<lambda>i j. np_sort_key (sims ! i) < np_sort_key (sims ! j) \<or>
       (np_sort_key (sims ! i) = np_sort_key (sims ! j) \<and> i < j)) (drop m (argsort_stable sims))"
    using argsort_stable_ties by (rule sorted_wrt_drop)
  then have "sorted_wrt (\<lambda>i j. sims ! j = sims ! i \<longrightarrow> i < j) (drop m (argsort_stable sims))"
    by (rule sorted_wrt_mono_rel [rotated]) auto
  with m show ?thesis by (simp add: sorted_wrt_rev)
qed

lemma top_k_indices_stable_later_wins:
  assumes "i \<in> set (top_k_indices argsort_stable sims k)"
    and "j < length sims"
    and "j \<notin> set (top_k_indices argsort_stable sims k)"
    and "sims ! j = sims ! i"
  shows "j < i"
proof -
  obtain m where m: "top_k_indices argsort_stable sims k = rev (drop m (argsort_stable sims))"
    using top_k_indices_drop by blast
  have s: "set (argsort_stable sims) = {..<length sims}"
    using argsort_stable_spec by (simp add: argsort_spec_def)
  from s assms(2) have "j \<in> set (argsort_stable sims)" by simp
  moreover from m assms(3) have "j \<notin> set (drop m (argsort_stable sims))" by simp
  moreover from m assms(1) have "i \<in> set (drop m (argsort_stable sims))" by simp
  ultimately have "np_sort_key (sims ! j) < np_sort_key (sims ! i) \<or>
       (np_sort_key (sims ! j) = np_sort_key (sims ! i) \<and> j < i)"
    using sorted_wrt_dropped_before [OF argsort_stable_ties] by blast
  with assms(4) show ?thesis by simp
qed


lemma py_sorted_reverse_set: "set (py_sorted_reverse f xs) = set xs"
  by (simp add: py_sorted_reverse_def)

lemma py_sorted_reverse_descending: "sorted (rev (map f (py_sorted_reverse f xs)))"
  by (simp add: py_sorted_reverse_def rev_map)

lemma py_sorted_reverse_stable:
  "filter (\<lambda>y. f y = t) (py_sorted_reverse f xs) = filter (\<lambda>y. f y = t) xs"
proof -
  have "filter (\<lambda>y. f y = t) (py_sorted_reverse f xs) =
        rev (filter (\<lambda>y. f y = t) (sort_key f (rev xs)))"
    by (simp add: py_sorted_reverse_def rev_filter)
  also have "\<dots> = rev (filter (\<lambda>y. f y = t) (rev xs))"
    by (simp only: sort_key_stable)
  also have "\<dots> = filter (\<lambda>y. f y = t) xs"
    by (simp add: rev_filter)
  finally show ?thesis .
qed

lemma top_n_indices_take:
  "\<exists>m. top_n_indices dates cand n = take m (py_sorted_reverse (\<lambda>i. dates ! i) cand)"
  unfolding top_n_indices_def by (rule py_slice_to_take)

lemma top_n_indices_subset: "set (top_n_indices dates cand n) \<subseteq> set cand"
proof -
  obtain m where "top_n_indices dates cand n = take m (py_sorted_reverse (\<lambda>i. dates ! i) cand)"
    using top_n_indices_take by blast
  then show ?thesis
    using set_take_subset [of m "py_sorted_reverse (\<lambda>i. dates ! i) cand"]
    by (simp add: py_sorted_reverse_set)
qed

lemma top_n_indices_length: "0 \<le> n \<Longrightarrow> int (length (top_n_indices dates cand n)) \<le> n"
  using py_slice_to_length [of n "py_sorted_reverse (\<lambda>i. dates ! i) cand"]
  by (simp add: top_n_indices_def)

lemma top_n_indices_descending:
  "sorted (rev (map (\<lambda>i. dates ! i) (top_n_indices dates cand n)))"
proof -
  let ?S = "py_sorted_reverse (\<lambda>i. dates ! i) cand"
  obtain m where m: "top_n_indices dates cand n = take m ?S"
    using top_n_indices_take by blast
  have "sorted (rev (map (\<lambda>i. dates ! i) ?S))" by (rule py_sorted_reverse_descending)
  then have "sorted (drop (length ?S - m) (rev (map (\<lambda>i. dates ! i) ?S)))"
    by (rule sorted_wrt_drop)
  then have "sorted (rev (take m (map (\<lambda>i. dates ! i) ?S)))"
    by (simp add: rev_take)
  with m show ?thesis by (simp add: take_map)
qed

lemma top_n_indices_most_recent:
  assumes "i \<in> set (top_n_indices dates cand n)"
    and "j \<in> set cand" and "j \<notin> set (top_n_indices dates cand n)"
  shows "dates ! j \<le> dates ! i"
proof -
  let ?S = "py_sorted_reverse (\<lambda>i. dates ! i) cand"
  obtain m where m: "top_n_indices dates cand n = take m ?S"
    using top_n_indices_take by blast
  have "sorted (rev (map (\<lambda>i. dates ! i) ?S))" by (rule py_sorted_reverse_descending)
  then have "sorted_wrt (\<lambda>x y. dates ! y \<le> dates ! x) ?S"
    by (simp add: rev_map [symmetric] sorted_wrt_rev sorted_wrt_map)
  then have "sorted_wrt (\<lambda>x y. dates ! y \<le> dates ! x) (take m ?S @ drop m ?S)" by simp
  then have *: "\<forall>x\<in>set (take m ?S). \<forall>y\<in>set (drop m ?S). dates ! y \<le> dates ! x"
    unfolding sorted_wrt_append by blast
  have "set ?S = set (take m ?S) \<union> set (drop m ?S)"
    by (metis append_take_drop_id set_append)
  with assms(2,3) m have "j \<in> set (drop m ?S)" by (simp add: py_sorted_reverse_set)
  with * assms(1) m show ?thesis by simp
qed

lemma top_n_indices_stable:
  "prefix (filter (\<lambda>i. dates ! i = t) (top_n_indices dates cand n))
          (filter (\<lambda>i. dates ! i = t) cand)"
proof -
  let ?S = "py_sorted_reverse (\<lambda>i. dates ! i) cand"
  obtain m where m: "top_n_indices dates cand n = take m ?S"
    using top_n_indices_take by blast
  have "prefix (take m ?S) ?S" by (rule take_is_prefix)
  then have "prefix (filter (\<lambda>i. dates ! i = t) (take m ?S)) (filter (\<lambda>i. dates ! i = t) ?S)"
    by (rule filter_mono_prefix)
  with m show ?thesis by (simp add: py_sorted_reverse_stable)
qed

lemma cosine_similarities_length: "length (cosine_similarities E q) = length E"
  by (simp add: cosine_similarities_def np_dot_def)

lemma retrieve_memories_store: "snd (retrieve_memories argsort em s query n k jt) = s"
  by (simp add: retrieve_memories_def Let_def split: option.splits)

lemma retrieve_memories_Returned:
  assumes "retrieve_memories argsort em s query n k jt = (Returned items, s')"
    and "memories s \<noteq> []"
  shows "\<exists>q. em query = Some q \<and> np_shapes_fit (memory_embeddings s) q \<and>
             (\<forall>i\<in>set (top_k_indices argsort (cosine_similarities (memory_embeddings s) q) k).
                  i < length (memory_dates s)) \<and>
             (\<forall>i\<in>set (top_n_indices (memory_dates s)
                   (top_k_indices argsort (cosine_similarities (memory_embeddings s) q) k) n).
                  i < length (memories s)) \<and>
             items = map (result_item s jt)
               (top_n_indices (memory_dates s)
                  (top_k_indices argsort (cosine_similarities (memory_embeddings s) q) k) n)"
  using assms
  by (auto simp: retrieve_memories_def Let_def not_le split: option.splits if_splits)

lemma retrieve_memories_returns:
  assumes spec: "argsort_spec argsort" and inv: "store_inv s"
    and q: "em query = Some q" and dim: "\<forall>e\<in>set (memory_embeddings s). length e = length q"
  shows "\<exists>items. retrieve_memories argsort em s query n k jt = (Returned items, s)"
proof (cases "memories s = []")
  case True
  then show ?thesis by (simp add: retrieve_memories_def)
next
  case False
  let ?sims = "cosine_similarities (memory_embeddings s) q"
  let ?cand = "top_k_indices argsort ?sims k"
  let ?top = "top_n_indices (memory_dates s) ?cand n"
  from inv have len: "length (memory_embeddings s) = length (memories s)"
    "length (memory_dates s) = length (memories s)"
    by (simp_all add: store_inv_def)
  from False len have "memory_embeddings s \<noteq> []" by auto
  with dim have fit: "np_shapes_fit (memory_embeddings s) q" by (simp add: np_shapes_fit_def)
  have cand: "\<forall>i\<in>set ?cand. i < length (memories s)"
    using top_k_indices_range [OF spec, of ?sims k] len
    by (auto simp: cosine_similarities_length)
  then have top: "\<forall>i\<in>set ?top. i < length (memories s)"
    using top_n_indices_subset [of "memory_dates s" ?cand n] by blast
  from False q fit cand top len show ?thesis
    by (auto simp: retrieve_memories_def Let_def not_le [symmetric])
qed

lemma result_item_text: "item_text (result_item s jt i) = memories s ! i"
  by (simp add: result_item_def)


lemma scenario_similarities:
  "cosine_similarities (memory_embeddings scenario_store) [1, 0] =
     [Finite 0, Finite 1, Finite 1, Finite 0]"
  by (simp add: cosine_similarities_def scenario_store_def np_dot_def np_linalg_norm_def)

lemma scenario_argsort:
  "argsort_stable [Finite 0, Finite 1, Finite 1, Finite 0] = [0, 3, 1, 2]"
  by (simp add: argsort_stable_def upt_rec)

lemma scenario_retrieve_1_4:
  "retrieve_memories argsort_stable stub_embed scenario_store ''career update'' 1 4 True =
     (Returned [TextOnly ''moved to New Paltz''], scenario_store)"
  apply (simp add: retrieve_memories_def stub_embed_def scenario_similarities)
  apply (simp add: scenario_store_def np_shapes_fit_def top_k_indices_def scenario_argsort
      py_slice_from_def top_n_indices_def py_sorted_reverse_def py_slice_to_def result_item_def)
  done

lemma scenario_retrieve_2_4:
  "retrieve_memories argsort_stable stub_embed scenario_store ''career update'' 2 4 True =
     (Returned [TextOnly ''moved to New Paltz'', TextOnly ''got a new job''], scenario_store)"
  apply (simp add: retrieve_memories_def stub_embed_def scenario_similarities)
  apply (simp add: scenario_store_def np_shapes_fit_def top_k_indices_def scenario_argsort
      py_slice_from_def top_n_indices_def py_sorted_reverse_def py_slice_to_def result_item_def)
  done

lemma scenario_retrieve_neg:
  "retrieve_memories argsort_stable stub_embed scenario_store ''career update'' (- 1) 10 True =
     (Returned [TextOnly ''moved to New Paltz'', TextOnly ''got a new job'',
                TextOnly ''enjoys biographies''], scenario_store)"
  apply (simp add: retrieve_memories_def stub_embed_def scenario_similarities)
  apply (simp add: scenario_store_def np_shapes_fit_def top_k_indices_def scenario_argsort
      py_slice_from_def top_n_indices_def py_sorted_reverse_def py_slice_to_def result_item_def)
  done

text \<open>
  Claim C1, as stated: among equally similar records the earlier-inserted one is preferred,
  and in the scenario of section 8 it is the one returned. With the store of that scenario
  (built by \<^verbatim>\<open>add_memories\<close>), records 1 and 2 equally similar to the query and of equal
  date, and \<^verbatim>\<open>argsort\<close> keeping ties in index order, \<^verbatim>\<open>retrieve_memories\<close> with
  \<open>n = 1\<close> and \<open>k = 4\<close> returns the later-inserted record 2: reversing the ascending
  order puts the later index first.
\<close>

theorem C1_tie_break_counterexample:
  "add_memories stub_embed UtilityRAG_init
     [''likes hiking'', ''got a new job'', ''moved to New Paltz'', ''enjoys biographies'']
     [0, 3, 3, 0] = (Returned (), scenario_store) \<and>
   stub_embed ''career update'' = Some [1, 0] \<and>
   cosine_similarities (memory_embeddings scenario_store) [1, 0] =
     [Finite 0, Finite 1, Finite 1, Finite 0] \<and>
   memory_dates scenario_store ! 1 = memory_dates scenario_store ! 2 \<and>
   argsort_spec argsort_stable \<and>
   retrieve_memories argsort_stable stub_embed scenario_store ''career update'' 1 4 True =
     (Returned [TextOnly ''moved to New Paltz''], scenario_store)"
proof -
  have "add_memories stub_embed UtilityRAG_init
     [''likes hiking'', ''got a new job'', ''moved to New Paltz'', ''enjoys biographies'']
     [0, 3, 3, 0] = (Returned (), scenario_store)"
    by (simp add: add_memories_def UtilityRAG_init_def stub_embed_def scenario_store_def)
  moreover have "stub_embed ''career update'' = Some [1, 0]"
    by (simp add: stub_embed_def)
  moreover have "memory_dates scenario_store ! 1 = memory_dates scenario_store ! 2"
    by (simp add: scenario_store_def)
  moreover have "retrieve_memories argsort_stable stub_embed scenario_store ''career update'' 1 4 True =
     (Returned [TextOnly ''moved to New Paltz''], scenario_store)"
    by (rule scenario_retrieve_1_4)
  ultimately show ?thesis using scenario_similarities argsort_stable_spec by simp
qed

text \<open>
  Claim C1, amended. For any \<^verbatim>\<open>argsort\<close> that meets its contract, the candidates are
  distinct stored indices, for \<open>k > 0\<close> there are \<open>min k (number of records)\<close> of them,
  they are listed by descending similarity, and every record left out is at most as
  similar as every candidate. The order among equally similar records is the reverse of
  the order \<^verbatim>\<open>argsort\<close> gives them: when \<^verbatim>\<open>argsort\<close> keeps ties in index order, the
  later-inserted record comes first and is the one preferred for membership, and in the
  scenario of section 8 the later-inserted record is returned.
\<close>

theorem C1_candidates_by_similarity:
  assumes "argsort_spec argsort"
  shows "distinct (top_k_indices argsort sims k) \<and>
    set (top_k_indices argsort sims k) \<subseteq> {..<length sims} \<and>
    (0 < k \<longrightarrow> length (top_k_indices argsort sims k) = min (nat k) (length sims)) \<and>
    sorted (rev (map (\<lambda>i. np_sort_key (sims ! i)) (top_k_indices argsort sims k))) \<and>
    (\<forall>i\<in>set (top_k_indices argsort sims k). \<forall>j<length sims.
        j \<notin> set (top_k_indices argsort sims k) \<longrightarrow>
        np_sort_key (sims ! j) \<le> np_sort_key (sims ! i)) \<and>
    sorted_wrt (\<lambda>i j. sims ! i = sims ! j \<longrightarrow> j < i) (top_k_indices argsort_stable sims k) \<and>
    (\<forall>i\<in>set (top_k_indices argsort_stable sims k). \<forall>j<length sims.
        j \<notin> set (top_k_indices argsort_stable sims k) \<and> sims ! j = sims ! i \<longrightarrow> j < i) \<and>
    retrieve_memories argsort_stable stub_embed scenario_store ''career update'' 1 4 True =
      (Returned [TextOnly ''moved to New Paltz''], scenario_store)"
proof (intro conjI)
  show "distinct (top_k_indices argsort sims k)"
    using assms by (rule top_k_indices_distinct)
  show "set (top_k_indices argsort sims k) \<subseteq> {..<length sims}"
    using assms by (rule top_k_indices_range)
  show "0 < k \<longrightarrow> length (top_k_indices argsort sims k) = min (nat k) (length sims)"
    using assms by (simp add: top_k_indices_length)
  show "sorted (rev (map (\<lambda>i. np_sort_key (sims ! i)) (top_k_indices argsort sims k)))"
    using assms by (rule top_k_indices_descending)
  show "\<forall>i\<in>set (top_k_indices argsort sims k). \<forall>j<length sims.
        j \<notin> set (top_k_indices argsort sims k) \<longrightarrow>
        np_sort_key (sims ! j) \<le> np_sort_key (sims ! i)"
    using top_k_indices_best [OF assms] by blast
  show "sorted_wrt (\<lambda>i j. sims ! i = sims ! j \<longrightarrow> j < i) (top_k_indices argsort_stable sims k)"
    by (rule top_k_indices_stable_ties)
  show "\<forall>i\<in>set (top_k_indices argsort_stable sims k). \<forall>j<length sims.
        j \<notin> set (top_k_indices argsort_stable sims k) \<and> sims ! j = sims ! i \<longrightarrow> j < i"
    using top_k_indices_stable_later_wins by blast
  show "retrieve_memories argsort_stable stub_embed scenario_store ''career update'' 1 4 True =
      (Returned [TextOnly ''moved to New Paltz''], scenario_store)"
    by (rule scenario_retrieve_1_4)
qed

theorem C1_candidates_by_similarity_witness:
  "argsort_spec argsort_stable \<and>
   top_k_indices argsort_stable [Finite 0, Finite 1, Finite 1, Finite 0] 1 = [2] \<and>
   (1::nat) < length [Finite 0, Finite 1, Finite 1, Finite 0] \<and>
   1 \<notin> set (top_k_indices argsort_stable [Finite 0, Finite 1, Finite 1, Finite 0] 1) \<and>
   [Finite 0, Finite 1, Finite 1, Finite 0] ! 1 = [Finite 0, Finite 1, Finite 1, Finite 0] ! 2 \<and>
   np_sort_key ([Finite 0, Finite 1, Finite 1, Finite 0] ! 1) \<le>
     np_sort_key ([Finite 0, Finite 1, Finite 1, Finite 0] ! 2) \<and>
   (1::nat) < 2"
proof -
  have spec: "argsort_spec argsort_stable" by (rule argsort_stable_spec)
  have cand: "top_k_indices argsort_stable [Finite 0, Finite 1, Finite 1, Finite 0] 1 = [2]"
    by (simp add: top_k_indices_def scenario_argsort py_slice_from_def)
  show ?thesis
    using spec cand
      C1_candidates_by_similarity [OF spec, of "[Finite 0, Finite 1, Finite 1, Finite 0]" 1]
    by simp
qed


lemma py_slice_to_length_eq: "0 \<le> i \<Longrightarrow> length (py_slice_to i xs) = min (nat i) (length xs)"
  by (simp add: py_slice_to_def min.commute)

lemma top_n_indices_length_eq:
  "0 \<le> n \<Longrightarrow> length (top_n_indices dates cand n) = min (nat n) (length cand)"
  by (simp add: top_n_indices_def py_slice_to_length_eq py_sorted_reverse_def)

text \<open>
  Claim C2. For a non-empty store, whatever \<^verbatim>\<open>retrieve_memories\<close> returns is read off
  the indices \<open>chosen\<close>, taken from the candidates \<open>cand\<close> that the similarity step
  selected: for \<open>n \<ge> 0\<close> there are \<open>min n (length cand)\<close> of them; no candidate left
  out has a date greater than a chosen one, so no returned record has a strictly smaller
  date than an omitted candidate; the chosen are listed most recent first; and for every
  date, the chosen records of that date are an initial part of the candidates of that
  date, in the candidates' order. The call does return when the store's lists are
  parallel, the embedder answers and the vectors have the query's dimension.
\<close>

theorem C2_most_recent_candidates:
  assumes "memories s \<noteq> []"
  shows "(\<forall>items s'. retrieve_memories argsort em s query n k jt = (Returned items, s') \<longrightarrow>
      (\<exists>q cand chosen. em query = Some q \<and>
         cand = top_k_indices argsort (cosine_similarities (memory_embeddings s) q) k \<and>
         chosen = top_n_indices (memory_dates s) cand n \<and>
         items = map (result_item s jt) chosen \<and>
         set chosen \<subseteq> set cand \<and>
         (0 \<le> n \<longrightarrow> length chosen = min (nat n) (length cand)) \<and>
         (\<forall>i\<in>set chosen. \<forall>j\<in>set cand. j \<notin> set chosen \<longrightarrow>
              memory_dates s ! j \<le> memory_dates s ! i) \<and>
         sorted (rev (map (\<lambda>i. memory_dates s ! i) chosen)) \<and>
         (\<forall>t. prefix (filter (\<lambda>i. memory_dates s ! i = t) chosen)
                     (filter (\<lambda>i. memory_dates s ! i = t) cand)))) \<and>
    (argsort_spec argsort \<and> store_inv s \<and>
     (\<exists>q. em query = Some q \<and> (\<forall>e\<in>set (memory_embeddings s). length e = length q)) \<longrightarrow>
     (\<exists>items. retrieve_memories argsort em s query n k jt = (Returned items, s)))"
proof (intro conjI allI impI)
  fix items s'
  assume r: "retrieve_memories argsort em s query n k jt = (Returned items, s')"
  from retrieve_memories_Returned [OF r assms] obtain q where
    q: "em query = Some q" and
    items: "items = map (result_item s jt)
               (top_n_indices (memory_dates s)
                  (top_k_indices argsort (cosine_similarities (memory_embeddings s) q) k) n)"
    by blast
  let ?cand = "top_k_indices argsort (cosine_similarities (memory_embeddings s) q) k"
  let ?chosen = "top_n_indices (memory_dates s) ?cand n"
  have "set ?chosen \<subseteq> set ?cand" by (rule top_n_indices_subset)
  moreover have "0 \<le> n \<longrightarrow> length ?chosen = min (nat n) (length ?cand)"
    by (simp add: top_n_indices_length_eq)
  moreover have "\<forall>i\<in>set ?chosen. \<forall>j\<in>set ?cand. j \<notin> set ?chosen \<longrightarrow>
              memory_dates s ! j \<le> memory_dates s ! i"
    using top_n_indices_most_recent by blast
  moreover have "sorted (rev (map (\<lambda>i. memory_dates s ! i) ?chosen))"
    by (rule top_n_indices_descending)
  moreover have "\<forall>t. prefix (filter (\<lambda>i. memory_dates s ! i = t) ?chosen)
                     (filter (\<lambda>i. memory_dates s ! i = t) ?cand)"
    using top_n_indices_stable by blast
  ultimately show "\<exists>q cand chosen. em query = Some q \<and>
         cand = top_k_indices argsort (cosine_similarities (memory_embeddings s) q) k \<and>
         chosen = top_n_indices (memory_dates s) cand n \<and>
         items = map (result_item s jt) chosen \<and>
         set chosen \<subseteq> set cand \<and>
         (0 \<le> n \<longrightarrow> length chosen = min (nat n) (length cand)) \<and>
         (\<forall>i\<in>set chosen. \<forall>j\<in>set cand. j \<notin> set chosen \<longrightarrow>
              memory_dates s ! j \<le> memory_dates s ! i) \<and>
         sorted (rev (map (\<lambda>i. memory_dates s ! i) chosen)) \<and>
         (\<forall>t. prefix (filter (\<lambda>i. memory_dates s ! i = t) chosen)
                     (filter (\<lambda>i. memory_dates s ! i = t) cand))"
    using q items by (intro exI [of _ q] exI [of _ ?cand] exI [of _ ?chosen] conjI) simp_all
next
  assume a: "argsort_spec argsort \<and> store_inv s \<and>
     (\<exists>q. em query = Some q \<and> (\<forall>e\<in>set (memory_embeddings s). length e = length q))"
  then obtain q where "em query = Some q" "\<forall>e\<in>set (memory_embeddings s). length e = length q"
    by blast
  with a show "\<exists>items. retrieve_memories argsort em s query n k jt = (Returned items, s)"
    using retrieve_memories_returns by blast
qed

theorem C2_most_recent_candidates_witness:
  "memories scenario_store \<noteq> [] \<and>
   retrieve_memories argsort_stable stub_embed scenario_store ''career update'' 2 4 True =
     (Returned [TextOnly ''moved to New Paltz'', TextOnly ''got a new job''], scenario_store) \<and>
   (\<exists>q cand chosen. stub_embed ''career update'' = Some q \<and>
      cand = top_k_indices argsort_stable
               (cosine_similarities (memory_embeddings scenario_store) q) 4 \<and>
      chosen = top_n_indices (memory_dates scenario_store) cand 2 \<and>
      [TextOnly ''moved to New Paltz'', TextOnly ''got a new job''] =
        map (result_item scenario_store True) chosen \<and>
      set chosen \<subseteq> set cand \<and>
      (0 \<le> (2::int) \<longrightarrow> length chosen = min (nat 2) (length cand)) \<and>
      (\<forall>i\<in>set chosen. \<forall>j\<in>set cand. j \<notin> set chosen \<longrightarrow>
           memory_dates scenario_store ! j \<le> memory_dates scenario_store ! i) \<and>
      sorted (rev (map (\<lambda>i. memory_dates scenario_store ! i) chosen)) \<and>
      (\<forall>t. prefix (filter (\<lambda>i. memory_dates scenario_store ! i = t) chosen)
                  (filter (\<lambda>i. memory_dates scenario_store ! i = t) cand))) \<and>
   argsort_spec argsort_stable \<and> store_inv scenario_store \<and>
   (\<exists>q. stub_embed ''career update'' = Some q \<and>
        (\<forall>e\<in>set (memory_embeddings scenario_store). length e = length q)) \<and>
   (\<exists>items. retrieve_memories argsort_stable stub_embed scenario_store ''career update'' 2 4 True =
       (Returned items, scenario_store))"
proof -
  have ne: "memories scenario_store \<noteq> []" by (simp add: scenario_store_def)
  note r = scenario_retrieve_2_4
  note inst = C2_most_recent_candidates
    [OF ne, of argsort_stable stub_embed "''career update''" 2 4 True]
  have inv: "store_inv scenario_store" by (simp add: store_inv_def scenario_store_def)
  have q: "\<exists>q. stub_embed ''career update'' = Some q \<and>
        (\<forall>e\<in>set (memory_embeddings scenario_store). length e = length q)"
    by (simp add: stub_embed_def scenario_store_def)
  from inst [THEN conjunct2, THEN mp, OF conjI [OF argsort_stable_spec conjI [OF inv q]]]
  have total: "\<exists>items. retrieve_memories argsort_stable stub_embed scenario_store
      ''career update'' 2 4 True = (Returned items, scenario_store)" .
  from inst [THEN conjunct1, THEN spec, THEN spec, THEN mp, OF r] ne r
    argsort_stable_spec inv q total
  show ?thesis by (intro conjI)
qed

section \<open>Retrieval as a read\<close>

text \<open>
  Claim C10, as stated: at most \<open>top_n\<close> items are returned. \<open>n\<close> is a Python integer
  and \<^verbatim>\<open>[:n]\<close> with a negative \<open>n\<close> drops the last \<open>|n|\<close> candidates instead: on the
  four records of the scenario, \<open>n = -1\<close> returns three items.
\<close>

theorem C10_negative_top_n_counterexample:
  "retrieve_memories argsort_stable stub_embed scenario_store ''career update'' (- 1) 10 True =
     (Returned [TextOnly ''moved to New Paltz'', TextOnly ''got a new job'',
                TextOnly ''enjoys biographies''], scenario_store) \<and>
   \<not> int (length [TextOnly ''moved to New Paltz'', TextOnly ''got a new job'',
                    TextOnly ''enjoys biographies'']) \<le> - 1"
  using scenario_retrieve_neg by simp

text \<open>
  Claim C10, amended. \<^verbatim>\<open>retrieve_memories\<close> leaves the store as it was (texts,
  embeddings and dates), also when it raises; every item it returns carries a text of
  the stored sequence; and for \<open>n \<ge> 0\<close> it returns at most \<open>n\<close> items. It does return
  when the store's lists are parallel, the embedder answers and the vectors have the
  query's dimension.
\<close>

theorem C10_retrieve_pure_read:
  "snd (retrieve_memories argsort em s query n k jt) = s \<and>
   (\<forall>items. fst (retrieve_memories argsort em s query n k jt) = Returned items \<longrightarrow>
      (0 \<le> n \<longrightarrow> int (length items) \<le> n) \<and>
      (\<forall>it\<in>set items. item_text it \<in> set (memories s))) \<and>
   (argsort_spec argsort \<and> store_inv s \<and>
     (\<exists>q. em query = Some q \<and> (\<forall>e\<in>set (memory_embeddings s). length e = length q)) \<longrightarrow>
     (\<exists>items. fst (retrieve_memories argsort em s query n k jt) = Returned items))"
proof (intro conjI allI impI ballI)
  show "snd (retrieve_memories argsort em s query n k jt) = s"
    by (rule retrieve_memories_store)
next
  fix items
  assume r: "fst (retrieve_memories argsort em s query n k jt) = Returned items" and n: "0 \<le> n"
  show "int (length items) \<le> n"
  proof (cases "memories s = []")
    case True
    with r n show ?thesis by (simp add: retrieve_memories_def)
  next
    case False
    from r have "retrieve_memories argsort em s query n k jt = (Returned items, s)"
      using retrieve_memories_store [of argsort em s query n k jt] by (simp add: prod_eq_iff)
    from retrieve_memories_Returned [OF this False] obtain q where
      "items = map (result_item s jt)
         (top_n_indices (memory_dates s)
            (top_k_indices argsort (cosine_similarities (memory_embeddings s) q) k) n)"
      by blast
    with n show ?thesis by (simp add: top_n_indices_length)
  qed
next
  fix items it
  assume r: "fst (retrieve_memories argsort em s query n k jt) = Returned items"
    and it: "it \<in> set items"
  show "item_text it \<in> set (memories s)"
  proof (cases "memories s = []")
    case True
    with r it show ?thesis by (simp add: retrieve_memories_def)
  next
    case False
    from r have "retrieve_memories argsort em s query n k jt = (Returned items, s)"
      using retrieve_memories_store [of argsort em s query n k jt] by (simp add: prod_eq_iff)
    from retrieve_memories_Returned [OF this False] obtain q where
      range: "\<forall>i\<in>set (top_n_indices (memory_dates s)
                   (top_k_indices argsort (cosine_similarities (memory_embeddings s) q) k) n).
                  i < length (memories s)" and
      items: "items = map (result_item s jt)
         (top_n_indices (memory_dates s)
            (top_k_indices argsort (cosine_similarities (memory_embeddings s) q) k) n)"
      by blast
    from it items obtain i where
      i: "i \<in> set (top_n_indices (memory_dates s)
            (top_k_indices argsort (cosine_similarities (memory_embeddings s) q) k) n)"
      and "it = result_item s jt i"
      by auto
    then have "item_text it = memories s ! i" by (simp add: result_item_text)
    moreover from range i have "i < length (memories s)" by blast
    ultimately show ?thesis by simp
  qed
next
  assume a: "argsort_spec argsort \<and> store_inv s \<and>
     (\<exists>q. em query = Some q \<and> (\<forall>e\<in>set (memory_embeddings s). length e = length q))"
  then obtain q where "em query = Some q" "\<forall>e\<in>set (memory_embeddings s). length e = length q"
    by blast
  with a obtain items where "retrieve_memories argsort em s query n k jt = (Returned items, s)"
    using retrieve_memories_returns by blast
  then show "\<exists>items. fst (retrieve_memories argsort em s query n k jt) = Returned items"
    by simp
qed

theorem C10_retrieve_pure_read_witness:
  "fst (retrieve_memories argsort_stable stub_embed scenario_store ''career update'' 2 4 True) =
     Returned [TextOnly ''moved to New Paltz'', TextOnly ''got a new job''] \<and>
   snd (retrieve_memories argsort_stable stub_embed scenario_store ''career update'' 2 4 True) =
     scenario_store \<and>
   (0::int) \<le> 2 \<and>
   int (length [TextOnly ''moved to New Paltz'', TextOnly ''got a new job'']) \<le> 2 \<and>
   TextOnly ''got a new job'' \<in> set [TextOnly ''moved to New Paltz'', TextOnly ''got a new job''] \<and>
   item_text (TextOnly ''got a new job'') \<in> set (memories scenario_store) \<and>
   argsort_spec argsort_stable \<and> store_inv scenario_store \<and>
   (\<exists>q. stub_embed ''career update'' = Some q \<and>
        (\<forall>e\<in>set (memory_embeddings scenario_store). length e = length q))"
proof -
  have r: "fst (retrieve_memories argsort_stable stub_embed scenario_store
              ''career update'' 2 4 True) =
     Returned [TextOnly ''moved to New Paltz'', TextOnly ''got a new job'']"
    by (simp add: scenario_retrieve_2_4)
  note inst = C10_retrieve_pure_read
    [of argsort_stable stub_embed scenario_store "''career update''" 2 4 True]
  from inst have frame:
    "snd (retrieve_memories argsort_stable stub_embed scenario_store ''career update'' 2 4 True) =
       scenario_store"
    by (rule conjunct1)
  from inst [THEN conjunct2, THEN conjunct1, THEN spec, THEN mp, OF r]
  have props: "(0 \<le> (2::int) \<longrightarrow>
        int (length [TextOnly ''moved to New Paltz'', TextOnly ''got a new job'']) \<le> 2) \<and>
      (\<forall>it\<in>set [TextOnly ''moved to New Paltz'', TextOnly ''got a new job''].
          item_text it \<in> set (memories scenario_store))" .
  have inv: "store_inv scenario_store" by (simp add: store_inv_def scenario_store_def)
  have q: "\<exists>q. stub_embed ''career update'' = Some q \<and>
        (\<forall>e\<in>set (memory_embeddings scenario_store). length e = length q)"
    by (simp add: stub_embed_def scenario_store_def)
  from r frame props inv q argsort_stable_spec show ?thesis by simp
qed

section \<open>Similarity of a zero vector\<close>










section \<open>Persistence\<close>


lemma load_saved_dict:
  assumes "fs path = Some bytes" and "loads bytes = Some (saved_dict s)"
  shows "UtilityRAG_load_from_file loads t path fs = (Returned (), s)"
  using assms by (simp add: UtilityRAG_load_from_file_def saved_dict_def)

lemma load_unreadable:
  assumes "blob_unreadable loads fs path"
  shows "\<exists>e. UtilityRAG_load_from_file loads t path fs = (Raised e, t)"
  using assms
  by (auto simp: UtilityRAG_load_from_file_def blob_unreadable_def split: option.splits)

lemma load_Returned:
  assumes "UtilityRAG_load_from_file loads t path fs = (Returned u, t')"
  shows "\<exists>bytes. fs path = Some bytes \<and> loads bytes = Some (saved_dict t')"
  using assms
  by (auto simp: UtilityRAG_load_from_file_def saved_dict_def
      split: option.splits pickled.splits)


lemma example_roundtrip: "pickle_roundtrip PickleBytes example_loads"
  by (simp add: pickle_roundtrip_def)

lemma save_then_load:
  assumes "pickle_roundtrip dumps loads"
  shows "UtilityRAG_load_from_file loads t path (UtilityRAG_save_to_file dumps s path fs) =
           (Returned (), s)"
proof (rule load_saved_dict)
  show "UtilityRAG_save_to_file dumps s path fs path = Some (dumps (saved_dict s))"
    by (simp add: UtilityRAG_save_to_file_def)
  from assms show "loads (dumps (saved_dict s)) = Some (saved_dict s)"
    by (simp add: pickle_roundtrip_def)
qed

text \<open>
  Claim C7. Given the pickle contract, \<^verbatim>\<open>save_to_file\<close> followed by \<^verbatim>\<open>load_from_file\<close>
  on the same path succeeds, into whatever store it is loaded, and the loaded store has
  the texts, the embedding vectors and the dates of the saved one, record by record.
  Loading takes no embedder, so nothing is recomputed.
\<close>

theorem C7_save_then_load_identity:
  assumes "pickle_roundtrip dumps loads"
  shows "fst (UtilityRAG_load_from_file loads t path
                (UtilityRAG_save_to_file dumps s path fs)) = Returned () \<and>
         memories (snd (UtilityRAG_load_from_file loads t path
                (UtilityRAG_save_to_file dumps s path fs))) = memories s \<and>
         memory_embeddings (snd (UtilityRAG_load_from_file loads t path
                (UtilityRAG_save_to_file dumps s path fs))) = memory_embeddings s \<and>
         memory_dates (snd (UtilityRAG_load_from_file loads t path
                (UtilityRAG_save_to_file dumps s path fs))) = memory_dates s"
  using save_then_load [OF assms, of t path s fs] by simp

theorem C7_save_then_load_identity_witness:
  "pickle_roundtrip PickleBytes example_loads \<and>
   fst (UtilityRAG_load_from_file example_loads UtilityRAG_init ''d/facts.pkl''
          (UtilityRAG_save_to_file PickleBytes scenario_store ''d/facts.pkl'' (\<lambda>path. None))) =
     Returned () \<and>
   memory_embeddings (snd (UtilityRAG_load_from_file example_loads UtilityRAG_init ''d/facts.pkl''
          (UtilityRAG_save_to_file PickleBytes scenario_store ''d/facts.pkl'' (\<lambda>path. None)))) =
     [[0, 1], [1, 0], [1, 0], [0, 1]]"
proof -
  have rt: "pickle_roundtrip PickleBytes example_loads" by (rule example_roundtrip)
  from C7_save_then_load_identity
    [OF rt, of UtilityRAG_init "''d/facts.pkl''" scenario_store "\<lambda>path. None"] rt
  show ?thesis by (simp add: scenario_store_def)
qed

text \<open>
  Claim C9. The three lists have equal lengths in a new store; \<^verbatim>\<open>add_memories\<close> keeps
  them so (also when the embedder raises midway, and when texts and dates differ in
  length); \<^verbatim>\<open>retrieve_memories\<close> keeps them so; and a successful \<^verbatim>\<open>load_from_file\<close>
  of a blob that \<^verbatim>\<open>save_to_file\<close> wrote from a store with parallel lists gives a store
  with parallel lists.
\<close>

theorem C9_parallel_lists_invariant:
  "store_inv UtilityRAG_init \<and>
   (store_inv s \<longrightarrow> store_inv (snd (add_memories em s texts dates))) \<and>
   (store_inv s \<longrightarrow> store_inv (snd (retrieve_memories argsort em s query n k jt))) \<and>
   (store_inv s \<and> pickle_roundtrip dumps loads \<and>
    fs path = UtilityRAG_save_to_file dumps s path0 fs0 path0 \<and>
    fst (UtilityRAG_load_from_file loads t path fs) = Returned () \<longrightarrow>
      store_inv (snd (UtilityRAG_load_from_file loads t path fs)))"
proof (intro conjI impI)
  show "store_inv UtilityRAG_init" by (simp add: store_inv_def UtilityRAG_init_def)
next
  assume "store_inv s"
  then show "store_inv (snd (add_memories em s texts dates))"
    unfolding add_memories_def by (rule add_memories_loop_inv)
next
  assume "store_inv s"
  then show "store_inv (snd (retrieve_memories argsort em s query n k jt))"
    by (simp add: retrieve_memories_store)
next
  assume a: "store_inv s \<and> pickle_roundtrip dumps loads \<and>
    fs path = UtilityRAG_save_to_file dumps s path0 fs0 path0 \<and>
    fst (UtilityRAG_load_from_file loads t path fs) = Returned ()"
  then have "fs path = Some (dumps (saved_dict s))"
    by (simp add: UtilityRAG_save_to_file_def)
  moreover from a have "loads (dumps (saved_dict s)) = Some (saved_dict s)"
    by (simp add: pickle_roundtrip_def)
  ultimately have "UtilityRAG_load_from_file loads t path fs = (Returned (), s)"
    by (rule load_saved_dict)
  with a show "store_inv (snd (UtilityRAG_load_from_file loads t path fs))" by simp
qed

theorem C9_parallel_lists_invariant_witness:
  "store_inv scenario_store \<and>
   pickle_roundtrip PickleBytes example_loads \<and>
   facts_only_fs ''d/facts.pkl'' =
     UtilityRAG_save_to_file PickleBytes scenario_store ''d/facts.pkl'' (\<lambda>path. None)
       ''d/facts.pkl'' \<and>
   fst (UtilityRAG_load_from_file example_loads UtilityRAG_init ''d/facts.pkl'' facts_only_fs) =
     Returned () \<and>
   store_inv (snd (add_memories stub_embed scenario_store [''a'', ''b''] [1, 2])) \<and>
   store_inv (snd (retrieve_memories argsort_stable stub_embed scenario_store
                     ''career update'' 2 4 True)) \<and>
   store_inv (snd (UtilityRAG_load_from_file example_loads UtilityRAG_init ''d/facts.pkl''
                     facts_only_fs))"
proof -
  have inv: "store_inv scenario_store" by (simp add: store_inv_def scenario_store_def)
  have rt: "pickle_roundtrip PickleBytes example_loads" by (rule example_roundtrip)
  have blob: "facts_only_fs ''d/facts.pkl'' =
     UtilityRAG_save_to_file PickleBytes scenario_store ''d/facts.pkl'' (\<lambda>path. None)
       ''d/facts.pkl''"
    by (simp add: facts_only_fs_def)
  have ok: "fst (UtilityRAG_load_from_file example_loads UtilityRAG_init ''d/facts.pkl''
                   facts_only_fs) = Returned ()"
    by (simp add: facts_only_fs_def UtilityRAG_load_from_file_def UtilityRAG_save_to_file_def
        saved_dict_def)
  from C9_parallel_lists_invariant
    [of scenario_store stub_embed "[''a'', ''b'']" "[1, 2]" argsort_stable "''career update''"
        2 4 True PickleBytes example_loads facts_only_fs "''d/facts.pkl''" "''d/facts.pkl''"
        "\<lambda>path. None" UtilityRAG_init]
    inv rt blob ok
  show ?thesis by simp
qed

lemma LMRRAG_load_first_unreadable:
  assumes "blob_unreadable loads fs (os_path_join (chosen_dir dir m) ''facts.pkl'')"
  shows "LMRRAG_load_from_file loads m dir fs = (False, m)"
proof -
  from load_unreadable [OF assms, of "facts m"] obtain e where
    "UtilityRAG_load_from_file loads (facts m)
       (os_path_join (chosen_dir dir m) ''facts.pkl'') fs = (Raised e, facts m)"
    by blast
  then show ?thesis by (simp add: LMRRAG_load_from_file_def)
qed

lemma LMRRAG_load_second_unreadable:
  assumes "UtilityRAG_load_from_file loads (facts m)
             (os_path_join (chosen_dir dir m) ''facts.pkl'') fs = (Returned (), f)"
    and "blob_unreadable loads fs (os_path_join (chosen_dir dir m) ''reflections.pkl'')"
  shows "LMRRAG_load_from_file loads m dir fs = (False, m\<lparr>facts := f\<rparr>)"
proof -
  from load_unreadable [OF assms(2), of "reflections m"] obtain e where
    "UtilityRAG_load_from_file loads (reflections m)
       (os_path_join (chosen_dir dir m) ''reflections.pkl'') fs = (Raised e, reflections m)"
    by blast
  with assms(1) show ?thesis by (simp add: LMRRAG_load_from_file_def)
qed

lemma LMRRAG_load_third_unreadable:
  assumes "UtilityRAG_load_from_file loads (facts m)
             (os_path_join (chosen_dir dir m) ''facts.pkl'') fs = (Returned (), f)"
    and "UtilityRAG_load_from_file loads (reflections m)
             (os_path_join (chosen_dir dir m) ''reflections.pkl'') fs = (Returned (), r)"
    and "blob_unreadable loads fs (os_path_join (chosen_dir dir m) ''deep_reflections.pkl'')"
  shows "LMRRAG_load_from_file loads m dir fs = (False, m\<lparr>facts := f, reflections := r\<rparr>)"
proof -
  from load_unreadable [OF assms(3), of "deep_reflections m"] obtain e where
    "UtilityRAG_load_from_file loads (deep_reflections m)
       (os_path_join (chosen_dir dir m) ''deep_reflections.pkl'') fs =
       (Raised e, deep_reflections m)"
    by blast
  with assms(1,2) show ?thesis by (simp add: LMRRAG_load_from_file_def)
qed

lemma LMRRAG_load_True:
  assumes "fst (LMRRAG_load_from_file loads m dir fs)"
  shows "\<exists>f r d.
     UtilityRAG_load_from_file loads (facts m)
       (os_path_join (chosen_dir dir m) ''facts.pkl'') fs = (Returned (), f) \<and>
     UtilityRAG_load_from_file loads (reflections m)
       (os_path_join (chosen_dir dir m) ''reflections.pkl'') fs = (Returned (), r) \<and>
     UtilityRAG_load_from_file loads (deep_reflections m)
       (os_path_join (chosen_dir dir m) ''deep_reflections.pkl'') fs = (Returned (), d) \<and>
     LMRRAG_load_from_file loads m dir fs =
       (True, m\<lparr>facts := f, reflections := r, deep_reflections := d\<rparr>)"
  using assms
  by (auto simp: LMRRAG_load_from_file_def Let_def split: prod.splits outcome.splits)

lemma LMRRAG_load_any_unreadable:
  assumes "blob_unreadable loads fs (os_path_join (chosen_dir dir m) ''facts.pkl'') \<or>
           blob_unreadable loads fs (os_path_join (chosen_dir dir m) ''reflections.pkl'') \<or>
           blob_unreadable loads fs (os_path_join (chosen_dir dir m) ''deep_reflections.pkl'')"
  shows "\<not> fst (LMRRAG_load_from_file loads m dir fs)"
proof
  assume "fst (LMRRAG_load_from_file loads m dir fs)"
  from LMRRAG_load_True [OF this] obtain f r d where
    "UtilityRAG_load_from_file loads (facts m)
       (os_path_join (chosen_dir dir m) ''facts.pkl'') fs = (Returned (), f)"
    "UtilityRAG_load_from_file loads (reflections m)
       (os_path_join (chosen_dir dir m) ''reflections.pkl'') fs = (Returned (), r)"
    "UtilityRAG_load_from_file loads (deep_reflections m)
       (os_path_join (chosen_dir dir m) ''deep_reflections.pkl'') fs = (Returned (), d)"
    by blast
  with assms show False
    using load_unreadable [of loads fs "os_path_join (chosen_dir dir m) ''facts.pkl''" "facts m"]
      load_unreadable [of loads fs "os_path_join (chosen_dir dir m) ''reflections.pkl''"
        "reflections m"]
      load_unreadable [of loads fs "os_path_join (chosen_dir dir m) ''deep_reflections.pkl''"
        "deep_reflections m"]
    by auto
qed

lemma facts_only_load:
  "LMRRAG_load_from_file example_loads (LMRRAG_init ''d'') None facts_only_fs =
     (False, (LMRRAG_init ''d'')\<lparr>facts := scenario_store\<rparr>)"
  by (simp add: LMRRAG_load_from_file_def LMRRAG_init_def chosen_dir_def os_path_join_def
      facts_only_fs_def UtilityRAG_load_from_file_def UtilityRAG_save_to_file_def saved_dict_def
      scenario_store_def UtilityRAG_init_def)

text \<open>
  Claim C5, as stated: a failing load leaves all three layers unchanged. With the facts
  blob present and the reflections blob missing, \<^verbatim>\<open>load_from_file\<close> of a new layered
  memory returns \<^verbatim>\<open>False\<close> but has already replaced the empty facts store by the four
  records of the blob.
\<close>

theorem C5_load_not_atomic_counterexample:
  "facts_only_fs ''d/reflections.pkl'' = None \<and>
   LMRRAG_load_from_file example_loads (LMRRAG_init ''d'') None facts_only_fs =
     (False, (LMRRAG_init ''d'')\<lparr>facts := scenario_store\<rparr>) \<and>
   facts (LMRRAG_init ''d'') = UtilityRAG_init \<and>
   scenario_store \<noteq> UtilityRAG_init"
proof -
  have "facts_only_fs ''d/reflections.pkl'' = None"
    by (simp add: facts_only_fs_def UtilityRAG_save_to_file_def)
  moreover have "facts (LMRRAG_init ''d'') = UtilityRAG_init" by (simp add: LMRRAG_init_def)
  moreover have "scenario_store \<noteq> UtilityRAG_init"
    by (simp add: scenario_store_def UtilityRAG_init_def)
  ultimately show ?thesis using facts_only_load by simp
qed

text \<open>
  Claim C5, amended. \<^verbatim>\<open>load_from_file\<close> returns \<^verbatim>\<open>False\<close> whenever one of the three
  blobs is missing or unreadable, and it never raises. It is not atomic: the layers are
  loaded in the order facts, reflections, deep reflections; a layer whose blob is missing
  or unreadable and the layers after it keep their state, the layers loaded before it
  have been replaced by the contents of their blobs.
\<close>

theorem C5_load_returns_false:
  "(blob_unreadable loads fs (os_path_join (chosen_dir dir m) ''facts.pkl'') \<or>
    blob_unreadable loads fs (os_path_join (chosen_dir dir m) ''reflections.pkl'') \<or>
    blob_unreadable loads fs (os_path_join (chosen_dir dir m) ''deep_reflections.pkl'') \<longrightarrow>
      \<not> fst (LMRRAG_load_from_file loads m dir fs)) \<and>
   (blob_unreadable loads fs (os_path_join (chosen_dir dir m) ''facts.pkl'') \<longrightarrow>
      snd (LMRRAG_load_from_file loads m dir fs) = m) \<and>
   (UtilityRAG_load_from_file loads (facts m)
      (os_path_join (chosen_dir dir m) ''facts.pkl'') fs = (Returned (), f) \<and>
    blob_unreadable loads fs (os_path_join (chosen_dir dir m) ''reflections.pkl'') \<longrightarrow>
      snd (LMRRAG_load_from_file loads m dir fs) = m\<lparr>facts := f\<rparr>) \<and>
   (UtilityRAG_load_from_file loads (facts m)
      (os_path_join (chosen_dir dir m) ''facts.pkl'') fs = (Returned (), f) \<and>
    UtilityRAG_load_from_file loads (reflections m)
      (os_path_join (chosen_dir dir m) ''reflections.pkl'') fs = (Returned (), r) \<and>
    blob_unreadable loads fs (os_path_join (chosen_dir dir m) ''deep_reflections.pkl'') \<longrightarrow>
      snd (LMRRAG_load_from_file loads m dir fs) = m\<lparr>facts := f, reflections := r\<rparr>)"
proof (intro conjI impI)
  assume "blob_unreadable loads fs (os_path_join (chosen_dir dir m) ''facts.pkl'') \<or>
    blob_unreadable loads fs (os_path_join (chosen_dir dir m) ''reflections.pkl'') \<or>
    blob_unreadable loads fs (os_path_join (chosen_dir dir m) ''deep_reflections.pkl'')"
  then show "\<not> fst (LMRRAG_load_from_file loads m dir fs)"
    by (rule LMRRAG_load_any_unreadable)
next
  assume "blob_unreadable loads fs (os_path_join (chosen_dir dir m) ''facts.pkl'')"
  then show "snd (LMRRAG_load_from_file loads m dir fs) = m"
    by (simp add: LMRRAG_load_first_unreadable)
next
  assume "UtilityRAG_load_from_file loads (facts m)
      (os_path_join (chosen_dir dir m) ''facts.pkl'') fs = (Returned (), f) \<and>
    blob_unreadable loads fs (os_path_join (chosen_dir dir m) ''reflections.pkl'')"
  then show "snd (LMRRAG_load_from_file loads m dir fs) = m\<lparr>facts := f\<rparr>"
    by (simp add: LMRRAG_load_second_unreadable)
next
  assume "UtilityRAG_load_from_file loads (facts m)
      (os_path_join (chosen_dir dir m) ''facts.pkl'') fs = (Returned (), f) \<and>
    UtilityRAG_load_from_file loads (reflections m)
      (os_path_join (chosen_dir dir m) ''reflections.pkl'') fs = (Returned (), r) \<and>
    blob_unreadable loads fs (os_path_join (chosen_dir dir m) ''deep_reflections.pkl'')"
  then show "snd (LMRRAG_load_from_file loads m dir fs) = m\<lparr>facts := f, reflections := r\<rparr>"
    by (simp add: LMRRAG_load_third_unreadable)
qed


theorem C5_load_returns_false_witness:
  "blob_unreadable example_loads (\<lambda>path. None)
     (os_path_join (chosen_dir None (LMRRAG_init ''d'')) ''facts.pkl'') \<and>
   \<not> fst (LMRRAG_load_from_file example_loads (LMRRAG_init ''d'') None (\<lambda>path. None)) \<and>
   snd (LMRRAG_load_from_file example_loads (LMRRAG_init ''d'') None (\<lambda>path. None)) =
     LMRRAG_init ''d'' \<and>
   UtilityRAG_load_from_file example_loads (facts (LMRRAG_init ''d''))
     (os_path_join (chosen_dir None (LMRRAG_init ''d'')) ''facts.pkl'') facts_only_fs =
     (Returned (), scenario_store) \<and>
   blob_unreadable example_loads facts_only_fs
     (os_path_join (chosen_dir None (LMRRAG_init ''d'')) ''reflections.pkl'') \<and>
   \<not> fst (LMRRAG_load_from_file example_loads (LMRRAG_init ''d'') None facts_only_fs) \<and>
   snd (LMRRAG_load_from_file example_loads (LMRRAG_init ''d'') None facts_only_fs) =
     (LMRRAG_init ''d'')\<lparr>facts := scenario_store\<rparr> \<and>
   UtilityRAG_load_from_file example_loads (facts (LMRRAG_init ''d''))
     (os_path_join (chosen_dir None (LMRRAG_init ''d'')) ''facts.pkl'') no_deep_fs =
     (Returned (), scenario_store) \<and>
   UtilityRAG_load_from_file example_loads (reflections (LMRRAG_init ''d''))
     (os_path_join (chosen_dir None (LMRRAG_init ''d'')) ''reflections.pkl'') no_deep_fs =
     (Returned (), zero_vector_store) \<and>
   blob_unreadable example_loads no_deep_fs
     (os_path_join (chosen_dir None (LMRRAG_init ''d'')) ''deep_reflections.pkl'') \<and>
   \<not> fst (LMRRAG_load_from_file example_loads (LMRRAG_init ''d'') None no_deep_fs) \<and>
   snd (LMRRAG_load_from_file example_loads (LMRRAG_init ''d'') None no_deep_fs) =
     (LMRRAG_init ''d'')\<lparr>facts := scenario_store, reflections := zero_vector_store\<rparr>"
proof -
  have dir: "chosen_dir None (LMRRAG_init ''d'') = ''d''"
    by (simp add: chosen_dir_def LMRRAG_init_def)
  have p: "os_path_join ''d'' ''facts.pkl'' = ''d/facts.pkl''"
    "os_path_join ''d'' ''reflections.pkl'' = ''d/reflections.pkl''"
    "os_path_join ''d'' ''deep_reflections.pkl'' = ''d/deep_reflections.pkl''"
    by (simp_all add: os_path_join_def)
  have a1: "blob_unreadable example_loads (\<lambda>path. None)
     (os_path_join (chosen_dir None (LMRRAG_init ''d'')) ''facts.pkl'')"
    by (simp add: blob_unreadable_def)
  have b1: "UtilityRAG_load_from_file example_loads (facts (LMRRAG_init ''d''))
     (os_path_join (chosen_dir None (LMRRAG_init ''d'')) ''facts.pkl'') facts_only_fs =
     (Returned (), scenario_store)"
    by (simp add: dir p facts_only_fs_def UtilityRAG_load_from_file_def
        UtilityRAG_save_to_file_def saved_dict_def scenario_store_def)
  have b2: "blob_unreadable example_loads facts_only_fs
     (os_path_join (chosen_dir None (LMRRAG_init ''d'')) ''reflections.pkl'')"
    by (simp add: dir p blob_unreadable_def facts_only_fs_def UtilityRAG_save_to_file_def)
  have c1: "UtilityRAG_load_from_file example_loads (facts (LMRRAG_init ''d''))
     (os_path_join (chosen_dir None (LMRRAG_init ''d'')) ''facts.pkl'') no_deep_fs =
     (Returned (), scenario_store)"
    by (simp add: dir p no_deep_fs_def facts_only_fs_def UtilityRAG_load_from_file_def
        UtilityRAG_save_to_file_def saved_dict_def scenario_store_def)
  have c2: "UtilityRAG_load_from_file example_loads (reflections (LMRRAG_init ''d''))
     (os_path_join (chosen_dir None (LMRRAG_init ''d'')) ''reflections.pkl'') no_deep_fs =
     (Returned (), zero_vector_store)"
    by (simp add: dir p no_deep_fs_def facts_only_fs_def UtilityRAG_load_from_file_def
        UtilityRAG_save_to_file_def saved_dict_def zero_vector_store_def)
  have c3: "blob_unreadable example_loads no_deep_fs
     (os_path_join (chosen_dir None (LMRRAG_init ''d'')) ''deep_reflections.pkl'')"
    by (simp add: dir p blob_unreadable_def no_deep_fs_def facts_only_fs_def
        UtilityRAG_save_to_file_def)
  note A = C5_load_returns_false
    [of example_loads "\<lambda>path. None" None "LMRRAG_init ''d''"]
  note B = C5_load_returns_false
    [of example_loads facts_only_fs None "LMRRAG_init ''d''" scenario_store]
  note C = C5_load_returns_false
    [of example_loads no_deep_fs None "LMRRAG_init ''d''" scenario_store zero_vector_store]
  from A a1 have A1: "\<not> fst (LMRRAG_load_from_file example_loads (LMRRAG_init ''d'') None
                       (\<lambda>path. None))"
    and A2: "snd (LMRRAG_load_from_file example_loads (LMRRAG_init ''d'') None (\<lambda>path. None)) =
     LMRRAG_init ''d''"
    by blast+
  from B b1 b2 have B1: "\<not> fst (LMRRAG_load_from_file example_loads (LMRRAG_init ''d'') None
                       facts_only_fs)"
    and B2: "snd (LMRRAG_load_from_file example_loads (LMRRAG_init ''d'') None facts_only_fs) =
     (LMRRAG_init ''d'')\<lparr>facts := scenario_store\<rparr>"
    by blast+
  from C c1 c2 c3 have C1: "\<not> fst (LMRRAG_load_from_file example_loads (LMRRAG_init ''d'') None
                       no_deep_fs)"
    and C2: "snd (LMRRAG_load_from_file example_loads (LMRRAG_init ''d'') None no_deep_fs) =
     (LMRRAG_init ''d'')\<lparr>facts := scenario_store, reflections := zero_vector_store\<rparr>"
    by blast+
  from a1 A1 A2 b1 b2 B1 B2 c1 c2 c3 C1 C2 show ?thesis by (intro conjI)
qed





section \<open>Resuming a reflection session\<close>



















end
